theory Spec2Isabelle
  imports Complex_Main "HOL-Library.Sublist"
begin

section \<open>JavaScript values and errors\<close>

text \<open>
  The values a request field can hold after Express has parsed the path, the query string
  and a JSON body. Arrays and nested objects are collapsed into \<open>JObject\<close>: they are always
  truthy and never strictly equal to a string, which is all the middlewares ask of them.
\<close>

datatype jsval =
    JUndefined
  | JNull
  | JBool bool
  | JNum rat
  | JStr string
  | JDate nat
  | JObject

text \<open>JavaScript's ToBoolean, as used by \<open>!\<close>, \<open>&&\<close> and \<open>||\<close>.\<close>

fun truthy :: "jsval \<Rightarrow> bool" where
  "truthy JUndefined = False"
| "truthy JNull = False"
| "truthy (JBool b) = b"
| "truthy (JNum n) = (n \<noteq> 0)"
| "truthy (JStr s) = (s \<noteq> [])"
| "truthy (JDate d) = True"
| "truthy JObject = True"

text \<open>\<open>a || b\<close>: the left operand when it is truthy, the right operand otherwise.\<close>

definition js_or :: "jsval \<Rightarrow> jsval \<Rightarrow> jsval" where
  "js_or a b = (if truthy a then a else b)"

text \<open>A field typed \<open>string | undefined\<close>: \<open>None\<close> is \<open>undefined\<close>.\<close>

fun str_truthy :: "string option \<Rightarrow> bool" where
  "str_truthy None = False"
| "str_truthy (Some s) = (s \<noteq> [])"

definition str_or :: "string option \<Rightarrow> string option \<Rightarrow> string option" where
  "str_or a b = (if str_truthy a then a else b)"

text \<open>
  Modelled from the spec: the class \<open>AppError\<close> (shared/errors/app-error) is imported by every
  service and middleware but its file is not among the sources. Section 7 of the specification
  says that every domain error carries its message and its HTTP status; the call sites
  construct it as \<open>new AppError(message, statusCode)\<close> and the error handler reads
  \<open>error.message\<close> and \<open>error.statusCode\<close>.
\<close>

datatype AppError = AppError (message: string) (statusCode: nat)

datatype Role = ADMIN | INSTRUCTOR | MEMBER

text \<open>
  What a middleware or a service call can throw: an \<open>AppError\<close> of its own, the error of the
  database client (with its code: \<open>P2002\<close> for a broken uniqueness constraint, \<open>P2025\<close> for a
  write that names a row that is not there), or the \<open>TypeError\<close> of reading a property of
  \<open>undefined\<close>.
\<close>

datatype thrown = App AppError | PrismaClientKnownRequestError string | TypeError string

text \<open>
  The error handler (error-handler.ts), the one place where a thrown error becomes a response:
  the HTTP status and the message of the envelope.
\<close>

definition handlePrismaError :: "string \<Rightarrow> nat \<times> string" where
  "handlePrismaError code =
     (if code = ''P2002'' then (409, ''A record with this value already exists'')
      else if code = ''P2025'' then (404, ''Record not found'')
      else (400, ''Database error''))"

fun errorHandler :: "thrown \<Rightarrow> nat \<times> string" where
  "errorHandler (App error) = (statusCode error, message error)"
| "errorHandler (PrismaClientKnownRequestError code) = handlePrismaError code"
| "errorHandler (TypeError m) = (500, ''Internal server error'')"

section \<open>Request context\<close>

text \<open>
  The parts of an Express request the access-control middlewares read and write:
  \<open>req.params.gymId\<close>, \<open>req.query.gymId\<close>, \<open>req.body.gymId\<close>, \<open>req.cookies.accessToken\<close>,
  \<open>req.headers.authorization\<close>, and the three fields the authenticate middleware declares on
  \<open>Express.Request\<close>. \<open>req.params\<close>, \<open>req.query\<close> and, with \<open>cookieParser()\<close> installed,
  \<open>req.cookies\<close> are objects, and reading a missing key of an object yields \<open>undefined\<close>.
  \<open>req.body\<close> is what the body parsers left: \<open>Some v\<close> is an object whose \<open>gymId\<close> property
  reads \<open>v\<close>, \<open>None\<close> is \<open>undefined\<close>, the value of \<open>req.body\<close> when no body was parsed
  (the sources do not fix the version of Express; version 5 leaves it so).
\<close>

record Request =
  params_gymId :: jsval
  query_gymId :: jsval
  req_body :: "jsval option"
  cookies_accessToken :: "string option"
  headers_authorization :: "string option"
  req_userId :: "string option"
  req_gymId :: "string option"
  req_userRole :: "Role option"

section \<open>Tenant-scope guard (validate-gym.middleware.ts)\<close>

text \<open>
  \<open>Inr req\<close> is \<open>next()\<close>: the request goes on to the next handler. \<open>Inl e\<close> is \<open>next(e)\<close>:
  the \<open>catch\<close> hands on whatever was thrown. \<open>req.body.gymId\<close> is read only when neither
  \<open>req.params.gymId\<close> nor \<open>req.query.gymId\<close> is truthy, and reading it throws when \<open>req.body\<close>
  is \<open>undefined\<close>; that happens before the identity is looked at.
  \<open>requestGymId !== userGymId\<close> compares with a string, so only a \<open>JStr\<close> holding the same
  characters is equal.
\<close>

definition read_body_gymId :: "Request \<Rightarrow> thrown + jsval" where
  "read_body_gymId req =
     (case req_body req of
        None \<Rightarrow>
          Inl (TypeError (''Cannot read properties of undefined (reading '' @ [CHR 0x27]
                          @ ''gymId'' @ [CHR 0x27] @ '')''))
      | Some v \<Rightarrow> Inr v)"

definition validateGymAccess :: "Request \<Rightarrow> thrown + Request" where
  "validateGymAccess req =
     (let userGymId = req_gymId req;
          pathOrQuery = js_or (params_gymId req) (query_gymId req)
      in case (if truthy pathOrQuery then Inr pathOrQuery else read_body_gymId req) of
           Inl error \<Rightarrow> Inl error
         | Inr requestGymId \<Rightarrow>
             (case userGymId of
                None \<Rightarrow>
                  Inl (App (AppError (''Dados de academia n'' @ [CHR 0xE3]
                                      @ ''o encontrados na sess'' @ [CHR 0xE3] @ ''o'') 401))
              | Some u \<Rightarrow>
                  if u = [] then
                    Inl (App (AppError (''Dados de academia n'' @ [CHR 0xE3]
                                        @ ''o encontrados na sess'' @ [CHR 0xE3] @ ''o'') 401))
                  else if truthy requestGymId \<and> requestGymId \<noteq> JStr u then
                    Inl (App (AppError ''Acesso negado a recursos de outra academia'' 403))
                  else Inr req))"

text \<open>
  The reading of the guard's contract: a tenant ID is carried or supplied when the field holds
  a truthy value (JavaScript treats \<open>undefined\<close>, \<open>null\<close> and the empty string as absent), and
  the request's tenant ID is the first supplied one in the order path, query, body. A request
  without a body supplies none there.
\<close>

definition body_field :: "Request \<Rightarrow> jsval" where
  "body_field req = (case req_body req of None \<Rightarrow> JUndefined | Some v \<Rightarrow> v)"

definition supplied_tenant :: "Request \<Rightarrow> jsval option" where
  "supplied_tenant req = find truthy [params_gymId req, query_gymId req, body_field req]"

definition identity_tenant :: "Request \<Rightarrow> string option" where
  "identity_tenant req = (if str_truthy (req_gymId req) then req_gymId req else None)"

datatype verdict = Pass | Fail nat

text \<open>What the caller sees: the request went on, or the status the error handler answers with.\<close>

fun verdict_of :: "thrown + Request \<Rightarrow> verdict" where
  "verdict_of (Inl e) = Fail (fst (errorHandler e))"
| "verdict_of (Inr r) = Pass"

definition tenant_guard_contract :: "Request \<Rightarrow> verdict" where
  "tenant_guard_contract req =
     (case identity_tenant req of
        None \<Rightarrow> Fail 401
      | Some u \<Rightarrow>
          (case supplied_tenant req of
             None \<Rightarrow> Pass
           | Some t \<Rightarrow> if t = JStr u then Pass else Fail 403))"


section \<open>Token codec (jwt.util.ts)\<close>

text \<open>
  The claims object inside a token: what \<open>jwt.verify\<close> returns and the code casts to
  \<open>DecodedToken\<close>. An access token carries \<open>userId\<close>, \<open>gymId\<close> and \<open>role\<close>; a refresh token
  carries \<open>userId\<close> only, so the other two are \<open>undefined\<close> (\<open>None\<close>) there. Times are seconds
  since the epoch.
\<close>

record DecodedToken =
  c_userId :: string
  c_gymId :: "string option"
  c_role :: "Role option"
  c_iat :: nat
  c_exp :: nat
  c_iss :: string
  c_aud :: string

text \<open>
  The package \<open>jsonwebtoken\<close> is a dependency of the repository, not part of it. Its two
  entry points are modelled symbolically, by the contract of the library: a signature is the
  keyed MAC of the claims it was computed over, and nothing else produces it. A token read
  off the wire is either three well-formed segments (claims and a signature) or malformed.
\<close>

datatype jws_signature = HMAC string DecodedToken

datatype jwt = Jwt (jwt_claims: DecodedToken) (jwt_signature: jws_signature) | Malformed string

text \<open>
  The library's error classes. \<open>TokenExpiredError\<close> and \<open>NotBeforeError\<close> are subclasses of
  \<open>JsonWebTokenError\<close>; \<open>ForeignError\<close> stands for anything else that may be thrown.
\<close>

datatype jwt_error = TokenExpiredError | NotBeforeError | JsonWebTokenError string | ForeignError string

fun instanceof_TokenExpiredError :: "jwt_error \<Rightarrow> bool" where
  "instanceof_TokenExpiredError TokenExpiredError = True"
| "instanceof_TokenExpiredError e = False"

fun instanceof_JsonWebTokenError :: "jwt_error \<Rightarrow> bool" where
  "instanceof_JsonWebTokenError (ForeignError m) = False"
| "instanceof_JsonWebTokenError e = True"

record payload_object =
  p_userId :: string
  p_gymId :: "string option"
  p_role :: "Role option"

record sign_options =
  expiresIn :: nat
  issuer :: string
  audience :: string

text \<open>\<open>jwt.sign(payload, secret, options)\<close> at clock reading \<open>now\<close>.\<close>

definition jwt_sign :: "payload_object \<Rightarrow> string \<Rightarrow> sign_options \<Rightarrow> nat \<Rightarrow> jwt" where
  "jwt_sign payload secret opts now =
     (let c = \<lparr> c_userId = p_userId payload, c_gymId = p_gymId payload, c_role = p_role payload,
                 c_iat = now, c_exp = now + expiresIn opts,
                 c_iss = issuer opts, c_aud = audience opts \<rparr>
      in Jwt c (HMAC secret c))"

text \<open>
  \<open>jwt.verify(token, secret, {issuer, audience})\<close> at clock reading \<open>now\<close>. The library checks
  the structure, then the signature, then the expiry, then audience and issuer.
\<close>

definition jwt_verify :: "jwt \<Rightarrow> string \<Rightarrow> string \<Rightarrow> string \<Rightarrow> nat \<Rightarrow> jwt_error + DecodedToken" where
  "jwt_verify token secret iss aud now =
     (case token of
        Malformed s \<Rightarrow> Inl (JsonWebTokenError ''jwt malformed'')
      | Jwt c sg \<Rightarrow>
          if sg \<noteq> HMAC secret c then Inl (JsonWebTokenError ''invalid signature'')
          else if c_exp c \<le> now then Inl TokenExpiredError
          else if c_aud c \<noteq> aud then Inl (JsonWebTokenError ''jwt audience invalid'')
          else if c_iss c \<noteq> iss then Inl (JsonWebTokenError ''jwt issuer invalid'')
          else Inr c)"

text \<open>
  \<open>JWT_CONFIG\<close>: the two secrets and the two lifetimes read from the environment when the
  module loads. The lifetimes (\<open>'15m'\<close> and \<open>'7d'\<close> by default) are held in seconds.
\<close>

record JWT_CONFIG =
  accessSecret :: string
  refreshSecret :: string
  accessExpiresIn :: nat
  refreshExpiresIn :: nat

record JwtPayload =
  userId :: string
  gymId :: string
  role :: Role

text \<open>What the wrappers throw: a plain \<open>Error\<close> with a message, or the caught error again.\<close>

datatype js_error = Error string | Rethrown jwt_error

definition generateAccessToken :: "JWT_CONFIG \<Rightarrow> nat \<Rightarrow> JwtPayload \<Rightarrow> jwt" where
  "generateAccessToken cfg now payload =
     jwt_sign \<lparr> p_userId = userId payload, p_gymId = Some (gymId payload),
                p_role = Some (role payload) \<rparr>
       (accessSecret cfg)
       \<lparr> expiresIn = accessExpiresIn cfg, issuer = ''gym-saas-api'',
         audience = ''gym-saas-client'' \<rparr> now"

text \<open>The refresh payload is \<open>{ userId }\<close> alone.\<close>

definition generateRefreshToken :: "JWT_CONFIG \<Rightarrow> nat \<Rightarrow> string \<Rightarrow> jwt" where
  "generateRefreshToken cfg now uid =
     jwt_sign \<lparr> p_userId = uid, p_gymId = None, p_role = None \<rparr>
       (refreshSecret cfg)
       \<lparr> expiresIn = refreshExpiresIn cfg, issuer = ''gym-saas-api'',
         audience = ''gym-saas-client'' \<rparr> now"

definition verifyAccessToken :: "JWT_CONFIG \<Rightarrow> nat \<Rightarrow> jwt \<Rightarrow> js_error + DecodedToken" where
  "verifyAccessToken cfg now token =
     (case jwt_verify token (accessSecret cfg) ''gym-saas-api'' ''gym-saas-client'' now of
        Inr decoded \<Rightarrow> Inr decoded
      | Inl error \<Rightarrow>
          if instanceof_TokenExpiredError error then Inl (Error ''Access token expired'')
          else if instanceof_JsonWebTokenError error then Inl (Error ''Invalid access token'')
          else Inl (Rethrown error))"

definition verifyRefreshToken :: "JWT_CONFIG \<Rightarrow> nat \<Rightarrow> jwt \<Rightarrow> js_error + DecodedToken" where
  "verifyRefreshToken cfg now token =
     (case jwt_verify token (refreshSecret cfg) ''gym-saas-api'' ''gym-saas-client'' now of
        Inr decoded \<Rightarrow> Inr decoded
      | Inl error \<Rightarrow>
          if instanceof_TokenExpiredError error then Inl (Error ''Refresh token expired'')
          else if instanceof_JsonWebTokenError error then Inl (Error ''Invalid refresh token'')
          else Inl (Rethrown error))"

section \<open>Authenticate middleware (authenticate.middleware.ts)\<close>

text \<open>
  \<open>String.prototype.replace\<close> with a string pattern: the first occurrence of the pattern is
  replaced, the rest of the text is kept.
\<close>

fun replace_first :: "string \<Rightarrow> string \<Rightarrow> string \<Rightarrow> string" where
  "replace_first pat rep [] = (if pat = [] then rep else [])"
| "replace_first pat rep (c # cs) =
     (if prefix pat (c # cs) then rep @ drop (length pat) (c # cs)
      else c # replace_first pat rep cs)"

text \<open>
  The middleware receives the token as text from the cookie or the header. \<open>verify\<close> stands
  for \<open>verifyAccessToken\<close> applied to that text under the process's secret and clock; the
  middleware catches whatever it throws.
\<close>

definition authenticate :: "(string \<Rightarrow> js_error + DecodedToken) \<Rightarrow> Request \<Rightarrow> AppError + Request" where
  "authenticate verify req =
     (let tokenFromCookie = cookies_accessToken req;
          tokenFromHeader = map_option (replace_first ''Bearer '' []) (headers_authorization req);
          token = str_or tokenFromCookie tokenFromHeader
      in case token of
           None \<Rightarrow>
             Inl (AppError (''Token de autentica'' @ [CHR 0xE7] @ [CHR 0xE3] @ ''o n''
                            @ [CHR 0xE3] @ ''o fornecido'') 401)
         | Some t \<Rightarrow>
             if t = [] then
               Inl (AppError (''Token de autentica'' @ [CHR 0xE7] @ [CHR 0xE3] @ ''o n''
                              @ [CHR 0xE3] @ ''o fornecido'') 401)
             else
               (case verify t of
                  Inl error \<Rightarrow>
                    Inl (AppError (''Token inv'' @ [CHR 0xE1] @ ''lido ou expirado'') 401)
                | Inr decoded \<Rightarrow>
                    Inr (req\<lparr> req_userId := Some (c_userId decoded),
                              req_gymId := c_gymId decoded,
                              req_userRole := c_role decoded \<rparr>)))"


text \<open>
  The token a request presents: the cookie when it holds one, otherwise what is left of the
  Authorization header once the scheme word is dropped. An empty text is no token.
\<close>

definition header_token :: "Request \<Rightarrow> string option" where
  "header_token req =
     (case headers_authorization req of
        None \<Rightarrow> None
      | Some h \<Rightarrow>
          (let t = replace_first ''Bearer '' [] h in if t = [] then None else Some t))"

definition presented_token :: "Request \<Rightarrow> string option" where
  "presented_token req =
     (case cookies_accessToken req of
        None \<Rightarrow> header_token req
      | Some c \<Rightarrow> if c = [] then header_token req else Some c)"

definition attach_identity :: "DecodedToken \<Rightarrow> Request \<Rightarrow> Request" where
  "attach_identity d req =
     req\<lparr> req_userId := Some (c_userId d), req_gymId := c_gymId d, req_userRole := c_role d \<rparr>"


text \<open>
  Tampering with an issued token: the claims or the signature segment is altered while the
  other one is left as issued.
\<close>

fun tampered :: "jwt \<Rightarrow> jwt \<Rightarrow> bool" where
  "tampered (Jwt c sg) (Jwt c' sg') = ((c' \<noteq> c \<and> sg' = sg) \<or> (c' = c \<and> sg' \<noteq> sg))"
| "tampered (Jwt c sg) (Malformed s) = False"
| "tampered (Malformed s) t = False"



section \<open>Password hasher (password.util.ts)\<close>

text \<open>
  The package \<open>bcryptjs\<close> is a dependency of the repository; the services are parametric in
  it. \<open>bcrypt_hash password rounds salt\<close> is \<open>bcrypt.hash(password, rounds)\<close> on the draw
  \<open>salt\<close> of the library's random salt, \<open>bcrypt_compare\<close> is \<open>bcrypt.compare\<close>.
\<close>

record bcryptjs =
  bcrypt_hash :: "string \<Rightarrow> nat \<Rightarrow> string \<Rightarrow> string"
  bcrypt_compare :: "string \<Rightarrow> string \<Rightarrow> bool"

definition SALT_ROUNDS :: nat where
  "SALT_ROUNDS = 10"

definition hashPassword :: "bcryptjs \<Rightarrow> string \<Rightarrow> string \<Rightarrow> string" where
  "hashPassword bc salt password = bcrypt_hash bc password SALT_ROUNDS salt"

definition comparePassword :: "bcryptjs \<Rightarrow> string \<Rightarrow> string \<Rightarrow> bool" where
  "comparePassword bc password hash = bcrypt_compare bc password hash"

section \<open>Credential store (prisma-user.repository.ts)\<close>

text \<open>
  A row of the users table. The Prisma schema is not among the sources; the columns are the
  ones the repository writes in \<open>create\<close> and lists in the \<open>select\<close> of
  \<open>findManyWithFilters\<close>. A nullable column is an option, a date is a clock reading.
\<close>

record User =
  u_id :: string
  u_gymId :: string
  u_name :: string
  u_email :: string
  u_passwordHash :: string
  u_role :: Role
  u_cpf :: "string option"
  u_phone :: "string option"
  u_birthDate :: "nat option"
  u_avatarUrl :: "string option"
  u_isActive :: bool
  u_createdAt :: nat
  u_updatedAt :: nat

record CreateUserData =
  cd_gymId :: string
  cd_name :: string
  cd_email :: string
  cd_passwordHash :: string
  cd_role :: Role
  cd_cpf :: "string option"
  cd_phone :: "string option"
  cd_birthDate :: "nat option"

record UpdateUserData =
  ud_name :: "string option"
  ud_email :: "string option"
  ud_passwordHash :: "string option"
  ud_role :: "Role option"
  ud_cpf :: "string option"
  ud_phone :: "string option"
  ud_birthDate :: "nat option"
  ud_avatarUrl :: "string option"
  ud_isActive :: "bool option"

text \<open>
  The columns \<open>create\<close> does not write: the database fills them in from the defaults of the
  schema. They are taken as given.
\<close>

record generated =
  g_id :: string
  g_avatarUrl :: "string option"
  g_isActive :: bool
  g_now :: nat

text \<open>
  The table is the list of its rows in insertion order.
\<close>

definition findById :: "string \<Rightarrow> User list \<Rightarrow> User option" where
  "findById i db = find (\<lambda>u. u_id u = i) db"

definition findByEmailAndGymId :: "string \<Rightarrow> string \<Rightarrow> User list \<Rightarrow> User option" where
  "findByEmailAndGymId email g db = find (\<lambda>u. u_email u = email \<and> u_gymId u = g) db"

definition existsByEmailAndGymId :: "string \<Rightarrow> string \<Rightarrow> User list \<Rightarrow> bool" where
  "existsByEmailAndGymId email g db =
     (0 < length (filter (\<lambda>u. u_email u = email \<and> u_gymId u = g) db))"

definition existsByCpf :: "string \<Rightarrow> User list \<Rightarrow> bool" where
  "existsByCpf cpf db = (0 < length (filter (\<lambda>u. u_cpf u = Some cpf) db))"

text \<open>
  The uniqueness constraints of the table are the ones the repository relies on when it calls
  \<open>findUnique\<close>: the pair \<open>(email, gymId)\<close> and the column \<open>cpf\<close>. A \<open>cpf\<close> that is null breaks
  nothing; any string does when a row already holds it, the empty string included.
\<close>

definition breaks_unique :: "User \<Rightarrow> User list \<Rightarrow> bool" where
  "breaks_unique user db =
     (list_ex (\<lambda>u. u_email u = u_email user \<and> u_gymId u = u_gymId user) db
      \<or> (case u_cpf user of None \<Rightarrow> False | Some cpf \<Rightarrow> list_ex (\<lambda>u. u_cpf u = Some cpf) db))"

text \<open>
  \<open>prisma.user.create({ data })\<close>: the new row is appended and returned, or the client throws
  its error \<open>P2002\<close> and nothing is written when the row would break a uniqueness constraint.
  The id is generated by the database.
\<close>

definition create :: "generated \<Rightarrow> CreateUserData \<Rightarrow> User list \<Rightarrow> string + User \<times> User list" where
  "create g data db =
     (let user = \<lparr> u_id = g_id g, u_gymId = cd_gymId data, u_name = cd_name data,
                    u_email = cd_email data, u_passwordHash = cd_passwordHash data,
                    u_role = cd_role data, u_cpf = cd_cpf data, u_phone = cd_phone data,
                    u_birthDate = cd_birthDate data, u_avatarUrl = g_avatarUrl g,
                    u_isActive = g_isActive g, u_createdAt = g_now g, u_updatedAt = g_now g \<rparr>
      in if breaks_unique user db then Inl ''P2002'' else Inr (user, db @ [user]))"

text \<open>
  \<open>prisma.user.update({ where: { id }, data })\<close>: the row with that id is replaced and
  returned; \<open>None\<close> is the error the client raises when no row has the id. A key that is
  \<open>undefined\<close> in \<open>data\<close> leaves its column alone. The update timestamp is kept by the
  database and is left as it is here.
\<close>

fun update_row :: "(User \<Rightarrow> User) \<Rightarrow> string \<Rightarrow> User list \<Rightarrow> (User \<times> User list) option" where
  "update_row f i [] = None"
| "update_row f i (u # us) =
     (if u_id u = i then Some (f u, f u # us)
      else (case update_row f i us of
              None \<Rightarrow> None
            | Some (r, us') \<Rightarrow> Some (r, u # us')))"

definition set_columns :: "UpdateUserData \<Rightarrow> User \<Rightarrow> User" where
  "set_columns data u =
     u\<lparr> u_name := (case ud_name data of None \<Rightarrow> u_name u | Some v \<Rightarrow> v),
        u_email := (case ud_email data of None \<Rightarrow> u_email u | Some v \<Rightarrow> v),
        u_passwordHash := (case ud_passwordHash data of None \<Rightarrow> u_passwordHash u | Some v \<Rightarrow> v),
        u_role := (case ud_role data of None \<Rightarrow> u_role u | Some v \<Rightarrow> v),
        u_cpf := (case ud_cpf data of None \<Rightarrow> u_cpf u | Some v \<Rightarrow> Some v),
        u_phone := (case ud_phone data of None \<Rightarrow> u_phone u | Some v \<Rightarrow> Some v),
        u_birthDate := (case ud_birthDate data of None \<Rightarrow> u_birthDate u | Some v \<Rightarrow> Some v),
        u_avatarUrl := (case ud_avatarUrl data of None \<Rightarrow> u_avatarUrl u | Some v \<Rightarrow> Some v),
        u_isActive := (case ud_isActive data of None \<Rightarrow> u_isActive u | Some v \<Rightarrow> v) \<rparr>"

definition update :: "string \<Rightarrow> UpdateUserData \<Rightarrow> User list \<Rightarrow> (User \<times> User list) option" where
  "update i data db = update_row (set_columns data) i db"

definition softDelete :: "string \<Rightarrow> User list \<Rightarrow> (User \<times> User list) option" where
  "softDelete i db = update_row (\<lambda>u. u\<lparr>u_isActive := False\<rparr>) i db"

definition reactivate :: "string \<Rightarrow> User list \<Rightarrow> (User \<times> User list) option" where
  "reactivate i db = update_row (\<lambda>u. u\<lparr>u_isActive := True\<rparr>) i db"

fun delete_row :: "string \<Rightarrow> User list \<Rightarrow> User list option" where
  "delete_row i [] = None"
| "delete_row i (u # us) =
     (if u_id u = i then Some us else map_option ((#) u) (delete_row i us))"

section \<open>Objects returned to callers\<close>

text \<open>
  A plain JavaScript object: its own enumerable properties in order. A row read from the
  store is such an object, with one property per column.
\<close>

type_synonym obj = "(string \<times> jsval) list"

fun role_name :: "Role \<Rightarrow> string" where
  "role_name ADMIN = ''ADMIN''"
| "role_name INSTRUCTOR = ''INSTRUCTOR''"
| "role_name MEMBER = ''MEMBER''"

fun nullable_string :: "string option \<Rightarrow> jsval" where
  "nullable_string None = JNull"
| "nullable_string (Some s) = JStr s"

fun nullable_date :: "nat option \<Rightarrow> jsval" where
  "nullable_date None = JNull"
| "nullable_date (Some d) = JDate d"

definition user_object :: "User \<Rightarrow> obj" where
  "user_object u =
     [(''id'', JStr (u_id u)), (''gymId'', JStr (u_gymId u)), (''name'', JStr (u_name u)),
      (''email'', JStr (u_email u)), (''passwordHash'', JStr (u_passwordHash u)),
      (''role'', JStr (role_name (u_role u))), (''cpf'', nullable_string (u_cpf u)),
      (''phone'', nullable_string (u_phone u)), (''birthDate'', nullable_date (u_birthDate u)),
      (''avatarUrl'', nullable_string (u_avatarUrl u)), (''isActive'', JBool (u_isActive u)),
      (''createdAt'', JDate (u_createdAt u)), (''updatedAt'', JDate (u_updatedAt u))]"

text \<open>
  \<open>const { k, ...rest } = object\<close>: \<open>rest\<close> has every own property of the object except \<open>k\<close>.
\<close>

definition rest_without :: "string \<Rightarrow> obj \<Rightarrow> obj" where
  "rest_without k object = filter (\<lambda>p. fst p \<noteq> k) object"

definition has_property :: "string \<Rightarrow> obj \<Rightarrow> bool" where
  "has_property k object = (k \<in> set (map fst object))"


section \<open>Auth service (auth.service.ts)\<close>

record RegisterDTO =
  r_name :: string
  r_email :: string
  r_password :: string
  r_gymId :: string
  r_role :: "Role option"
  r_cpf :: "string option"
  r_phone :: "string option"
  r_birthDate :: "nat option"

record LoginDTO =
  l_email :: string
  l_password :: string
  l_gymId :: string

record AuthResponse =
  resp_user :: obj
  resp_accessToken :: jwt
  resp_refreshToken :: jwt

datatype RefreshResponse = RefreshResponse (new_accessToken: jwt)

text \<open>
  What one call of a service takes from outside: the hashing library and the salt it draws,
  the token configuration, the clock, and the columns the database generates on insert.
\<close>

record world =
  w_bcrypt :: bcryptjs
  w_salt :: string
  w_jwt_config :: JWT_CONFIG
  w_clock :: nat
  w_generated :: generated

text \<open>
  \<open>register\<close> returns its result together with the table after the call. \<open>if (data.cpf)\<close>
  holds for a non-empty string; \<open>data.role || Role.MEMBER\<close> is the role when there is one.
  What \<open>create\<close> throws is not caught.
\<close>

definition register :: "world \<Rightarrow> RegisterDTO \<Rightarrow> User list \<Rightarrow> (thrown + AuthResponse) \<times> User list" where
  "register w data db =
     (if existsByEmailAndGymId (r_email data) (r_gymId data) db then
        (Inl (App (AppError (''E-mail j'' @ [CHR 0xE1] @ '' cadastrado nesta academia'') 409)), db)
      else if (case r_cpf data of None \<Rightarrow> False | Some cpf \<Rightarrow> cpf \<noteq> [] \<and> existsByCpf cpf db) then
        (Inl (App (AppError (''CPF j'' @ [CHR 0xE1] @ '' cadastrado'') 409)), db)
      else
        (let passwordHash = hashPassword (w_bcrypt w) (w_salt w) (r_password data)
         in case create (w_generated w)
                   \<lparr> cd_gymId = r_gymId data, cd_name = r_name data, cd_email = r_email data,
                     cd_passwordHash = passwordHash,
                     cd_role = (case r_role data of None \<Rightarrow> MEMBER | Some r \<Rightarrow> r),
                     cd_cpf = r_cpf data, cd_phone = r_phone data,
                     cd_birthDate = r_birthDate data \<rparr> db of
              Inl code \<Rightarrow> (Inl (PrismaClientKnownRequestError code), db)
            | Inr (user, db') \<Rightarrow>
                (let accessToken = generateAccessToken (w_jwt_config w) (w_clock w)
                       \<lparr> userId = u_id user, gymId = u_gymId user, role = u_role user \<rparr>;
                     refreshToken = generateRefreshToken (w_jwt_config w) (w_clock w) (u_id user)
                 in (Inr \<lparr> resp_user = [(''id'', JStr (u_id user)), (''name'', JStr (u_name user)),
                                          (''email'', JStr (u_email user)),
                                          (''role'', JStr (role_name (u_role user))),
                                          (''gymId'', JStr (u_gymId user))],
                            resp_accessToken = accessToken, resp_refreshToken = refreshToken \<rparr>,
                     db'))))"

definition login :: "world \<Rightarrow> LoginDTO \<Rightarrow> User list \<Rightarrow> AppError + AuthResponse" where
  "login w data db =
     (case findByEmailAndGymId (l_email data) (l_gymId data) db of
        None \<Rightarrow> Inl (AppError (''Credenciais inv'' @ [CHR 0xE1] @ ''lidas'') 401)
      | Some user \<Rightarrow>
          if \<not> u_isActive user then
            Inl (AppError (''Usu'' @ [CHR 0xE1] @ ''rio inativo'') 403)
          else if \<not> comparePassword (w_bcrypt w) (l_password data) (u_passwordHash user) then
            Inl (AppError (''Credenciais inv'' @ [CHR 0xE1] @ ''lidas'') 401)
          else
            (let accessToken = generateAccessToken (w_jwt_config w) (w_clock w)
                   \<lparr> userId = u_id user, gymId = u_gymId user, role = u_role user \<rparr>;
                 refreshToken = generateRefreshToken (w_jwt_config w) (w_clock w) (u_id user)
             in Inr \<lparr> resp_user = [(''id'', JStr (u_id user)), (''name'', JStr (u_name user)),
                              (''email'', JStr (u_email user)),
                              (''role'', JStr (role_name (u_role user))),
                              (''gymId'', JStr (u_gymId user))],
                      resp_accessToken = accessToken, resp_refreshToken = refreshToken \<rparr>))"

definition refreshAccessToken :: "world \<Rightarrow> jwt \<Rightarrow> User list \<Rightarrow> AppError + RefreshResponse" where
  "refreshAccessToken w refreshToken db =
     (case verifyRefreshToken (w_jwt_config w) (w_clock w) refreshToken of
        Inl error \<Rightarrow>
          Inl (AppError (''Refresh token inv'' @ [CHR 0xE1] @ ''lido ou expirado'') 401)
      | Inr decoded \<Rightarrow>
          (case findById (c_userId decoded) db of
             None \<Rightarrow>
               Inl (AppError (''Usu'' @ [CHR 0xE1] @ ''rio n'' @ [CHR 0xE3] @ ''o encontrado'') 404)
           | Some user \<Rightarrow>
               if \<not> u_isActive user then
                 Inl (AppError (''Usu'' @ [CHR 0xE1] @ ''rio inativo'') 403)
               else
                 Inr (RefreshResponse
                   (generateAccessToken (w_jwt_config w) (w_clock w)
                      \<lparr> userId = u_id user, gymId = u_gymId user, role = u_role user \<rparr>))))"

definition getProfile :: "string \<Rightarrow> User list \<Rightarrow> AppError + obj" where
  "getProfile uid db =
     (case findById uid db of
        None \<Rightarrow>
          Inl (AppError (''Usu'' @ [CHR 0xE1] @ ''rio n'' @ [CHR 0xE3] @ ''o encontrado'') 404)
      | Some user \<Rightarrow>
          if \<not> u_isActive user then
            Inl (AppError (''Usu'' @ [CHR 0xE1] @ ''rio inativo'') 403)
          else Inr (rest_without ''passwordHash'' (user_object user)))"

section \<open>User service (user.service.ts)\<close>

record UpdateProfileDTO =
  up_name :: "string option"
  up_phone :: "string option"
  up_birthDate :: "nat option"
  up_avatarUrl :: "string option"

record UpdateUserDTO =
  uu_name :: "string option"
  uu_phone :: "string option"
  uu_birthDate :: "nat option"
  uu_avatarUrl :: "string option"
  uu_email :: "string option"
  uu_role :: "Role option"
  uu_isActive :: "bool option"
  uu_cpf :: "string option"

definition removeSensitiveData :: "User \<Rightarrow> obj" where
  "removeSensitiveData u = rest_without ''passwordHash'' (user_object u)"

text \<open>
  \<open>findManyWithFilters\<close> stands for the repository's paginated query (filters, search, order
  and paging are outside the specification): given the caller's filters and the gym the
  service forces, it yields the rows of the page and the page's metadata.
\<close>

definition listUsers ::
  "('f \<Rightarrow> string \<Rightarrow> User list \<Rightarrow> User list \<times> 'm) \<Rightarrow> 'f \<Rightarrow> string \<Rightarrow> Role \<Rightarrow> string \<Rightarrow> User list
     \<Rightarrow> thrown + (obj list \<times> 'm)" where
  "listUsers findManyWithFilters filters requestingUserId requestingUserRole requestingUserGymId db =
     (if requestingUserRole = MEMBER then
        Inl (App (AppError (''Sem permiss'' @ [CHR 0xE3] @ ''o para listar usu'' @ [CHR 0xE1]
                            @ ''rios'') 403))
      else
        (let (rows, meta) = findManyWithFilters filters requestingUserGymId db
         in Inr (map removeSensitiveData rows, meta)))"

definition getUserById :: "string \<Rightarrow> string \<Rightarrow> Role \<Rightarrow> string \<Rightarrow> User list \<Rightarrow> thrown + obj" where
  "getUserById uid requestingUserId requestingUserRole requestingUserGymId db =
     (case findById uid db of
        None \<Rightarrow>
          Inl (App (AppError (''Usu'' @ [CHR 0xE1] @ ''rio n'' @ [CHR 0xE3] @ ''o encontrado'') 404))
      | Some user \<Rightarrow>
          (let isSelf = (uid = requestingUserId);
               isSameGym = (u_gymId user = requestingUserGymId);
               hasPermission = (isSelf \<or> (isSameGym \<and> requestingUserRole \<noteq> MEMBER))
           in if \<not> hasPermission then
                Inl (App (AppError (''Sem permiss'' @ [CHR 0xE3] @ ''o para visualizar este usu''
                                    @ [CHR 0xE1] @ ''rio'') 403))
              else Inr (removeSensitiveData user)))"

definition updateOwnProfile :: "string \<Rightarrow> UpdateProfileDTO \<Rightarrow> User list \<Rightarrow> (thrown + obj) \<times> User list" where
  "updateOwnProfile uid data db =
     (case findById uid db of
        None \<Rightarrow>
          (Inl (App (AppError (''Usu'' @ [CHR 0xE1] @ ''rio n'' @ [CHR 0xE3] @ ''o encontrado'') 404)), db)
      | Some user \<Rightarrow>
          if \<not> u_isActive user then
            (Inl (App (AppError (''Usu'' @ [CHR 0xE1] @ ''rio inativo'') 403)), db)
          else
            (case update uid
                    \<lparr> ud_name = up_name data, ud_email = None, ud_passwordHash = None,
                      ud_role = None, ud_cpf = None, ud_phone = up_phone data,
                      ud_birthDate = up_birthDate data, ud_avatarUrl = up_avatarUrl data,
                      ud_isActive = None \<rparr> db of
               None \<Rightarrow> (Inl (PrismaClientKnownRequestError ''P2025''), db)
             | Some (updatedUser, db') \<Rightarrow> (Inr (removeSensitiveData updatedUser), db')))"

definition updateUser ::
  "string \<Rightarrow> UpdateUserDTO \<Rightarrow> string \<Rightarrow> Role \<Rightarrow> string \<Rightarrow> User list \<Rightarrow> (thrown + obj) \<times> User list" where
  "updateUser uid data requestingUserId requestingUserRole requestingUserGymId db =
     (if requestingUserRole \<noteq> ADMIN then
        (Inl (App (AppError (''Sem permiss'' @ [CHR 0xE3] @ ''o para editar usu'' @ [CHR 0xE1]
                             @ ''rios'') 403)), db)
      else
        (case findById uid db of
           None \<Rightarrow>
             (Inl (App (AppError (''Usu'' @ [CHR 0xE1] @ ''rio n'' @ [CHR 0xE3] @ ''o encontrado'') 404)), db)
         | Some user \<Rightarrow>
             if u_gymId user \<noteq> requestingUserGymId then
               (Inl (App (AppError (''N'' @ [CHR 0xE3] @ ''o '' @ [CHR 0xE9] @ '' poss'' @ [CHR 0xED]
                                    @ ''vel editar usu'' @ [CHR 0xE1]
                                    @ ''rios de outra academia'') 403)), db)
             else if (case uu_email data of
                        None \<Rightarrow> False
                      | Some email \<Rightarrow> email \<noteq> [] \<and> email \<noteq> u_email user
                                      \<and> existsByEmailAndGymId email (u_gymId user) db) then
               (Inl (App (AppError (''E-mail j'' @ [CHR 0xE1] @ '' cadastrado'') 409)), db)
             else if (case uu_cpf data of
                        None \<Rightarrow> False
                      | Some cpf \<Rightarrow> cpf \<noteq> [] \<and> Some cpf \<noteq> u_cpf user \<and> existsByCpf cpf db) then
               (Inl (App (AppError (''CPF j'' @ [CHR 0xE1] @ '' cadastrado'') 409)), db)
             else
               (case update uid
                       \<lparr> ud_name = uu_name data, ud_email = uu_email data, ud_passwordHash = None,
                         ud_role = uu_role data, ud_cpf = uu_cpf data, ud_phone = uu_phone data,
                         ud_birthDate = uu_birthDate data, ud_avatarUrl = uu_avatarUrl data,
                         ud_isActive = uu_isActive data \<rparr> db of
                  None \<Rightarrow> (Inl (PrismaClientKnownRequestError ''P2025''), db)
                | Some (updatedUser, db') \<Rightarrow> (Inr (removeSensitiveData updatedUser), db'))))"

definition deactivateUser :: "string \<Rightarrow> string \<Rightarrow> Role \<Rightarrow> string \<Rightarrow> User list \<Rightarrow> (thrown + obj) \<times> User list" where
  "deactivateUser uid requestingUserId requestingUserRole requestingUserGymId db =
     (if requestingUserRole \<noteq> ADMIN then
        (Inl (App (AppError (''Sem permiss'' @ [CHR 0xE3] @ ''o para desativar usu'' @ [CHR 0xE1]
                             @ ''rios'') 403)), db)
      else if uid = requestingUserId then
        (Inl (App (AppError (''N'' @ [CHR 0xE3] @ ''o '' @ [CHR 0xE9] @ '' poss'' @ [CHR 0xED]
                             @ ''vel desativar o pr'' @ [CHR 0xF3] @ ''prio usu'' @ [CHR 0xE1]
                             @ ''rio'') 400)), db)
      else
        (case findById uid db of
           None \<Rightarrow>
             (Inl (App (AppError (''Usu'' @ [CHR 0xE1] @ ''rio n'' @ [CHR 0xE3] @ ''o encontrado'') 404)), db)
         | Some user \<Rightarrow>
             if u_gymId user \<noteq> requestingUserGymId then
               (Inl (App (AppError (''N'' @ [CHR 0xE3] @ ''o '' @ [CHR 0xE9] @ '' poss'' @ [CHR 0xED]
                                    @ ''vel desativar usu'' @ [CHR 0xE1]
                                    @ ''rios de outra academia'') 403)), db)
             else if \<not> u_isActive user then
               (Inl (App (AppError (''Usu'' @ [CHR 0xE1] @ ''rio j'' @ [CHR 0xE1] @ '' est''
                                    @ [CHR 0xE1] @ '' inativo'') 400)), db)
             else
               (case softDelete uid db of
                  None \<Rightarrow> (Inl (PrismaClientKnownRequestError ''P2025''), db)
                | Some (deactivatedUser, db') \<Rightarrow> (Inr (removeSensitiveData deactivatedUser), db'))))"

definition reactivateUser :: "string \<Rightarrow> string \<Rightarrow> Role \<Rightarrow> string \<Rightarrow> User list \<Rightarrow> (thrown + obj) \<times> User list" where
  "reactivateUser uid requestingUserId requestingUserRole requestingUserGymId db =
     (if requestingUserRole \<noteq> ADMIN then
        (Inl (App (AppError (''Sem permiss'' @ [CHR 0xE3] @ ''o para reativar usu'' @ [CHR 0xE1]
                             @ ''rios'') 403)), db)
      else
        (case findById uid db of
           None \<Rightarrow>
             (Inl (App (AppError (''Usu'' @ [CHR 0xE1] @ ''rio n'' @ [CHR 0xE3] @ ''o encontrado'') 404)), db)
         | Some user \<Rightarrow>
             if u_gymId user \<noteq> requestingUserGymId then
               (Inl (App (AppError (''N'' @ [CHR 0xE3] @ ''o '' @ [CHR 0xE9] @ '' poss'' @ [CHR 0xED]
                                    @ ''vel reativar usu'' @ [CHR 0xE1]
                                    @ ''rios de outra academia'') 403)), db)
             else if u_isActive user then
               (Inl (App (AppError (''Usu'' @ [CHR 0xE1] @ ''rio j'' @ [CHR 0xE1] @ '' est''
                                    @ [CHR 0xE1] @ '' ativo'') 400)), db)
             else
               (case reactivate uid db of
                  None \<Rightarrow> (Inl (PrismaClientKnownRequestError ''P2025''), db)
                | Some (reactivatedUser, db') \<Rightarrow> (Inr (removeSensitiveData reactivatedUser), db'))))"

definition deleteUser :: "string \<Rightarrow> string \<Rightarrow> Role \<Rightarrow> string \<Rightarrow> User list \<Rightarrow> (thrown + unit) \<times> User list" where
  "deleteUser uid requestingUserId requestingUserRole requestingUserGymId db =
     (if requestingUserRole \<noteq> ADMIN then
        (Inl (App (AppError (''Sem permiss'' @ [CHR 0xE3] @ ''o para deletar usu'' @ [CHR 0xE1]
                             @ ''rios'') 403)), db)
      else if uid = requestingUserId then
        (Inl (App (AppError (''N'' @ [CHR 0xE3] @ ''o '' @ [CHR 0xE9] @ '' poss'' @ [CHR 0xED]
                             @ ''vel deletar o pr'' @ [CHR 0xF3] @ ''prio usu'' @ [CHR 0xE1]
                             @ ''rio'') 400)), db)
      else
        (case findById uid db of
           None \<Rightarrow>
             (Inl (App (AppError (''Usu'' @ [CHR 0xE1] @ ''rio n'' @ [CHR 0xE3] @ ''o encontrado'') 404)), db)
         | Some user \<Rightarrow>
             if u_gymId user \<noteq> requestingUserGymId then
               (Inl (App (AppError (''N'' @ [CHR 0xE3] @ ''o '' @ [CHR 0xE9] @ '' poss'' @ [CHR 0xED]
                                    @ ''vel deletar usu'' @ [CHR 0xE1]
                                    @ ''rios de outra academia'') 403)), db)
             else
               (case delete_row uid db of
                  None \<Rightarrow> (Inl (PrismaClientKnownRequestError ''P2025''), db)
                | Some db' \<Rightarrow> (Inr (), db'))))"


section \<open>Readings used by the contracts\<close>


text \<open>The HTTP status a thrown \<open>AppError\<close> carries.\<close>

fun thrown_status :: "thrown + 'a \<Rightarrow> nat option" where
  "thrown_status (Inl (App e)) = Some (statusCode e)"
| "thrown_status (Inl (PrismaClientKnownRequestError c)) = None"
| "thrown_status (Inl (TypeError m)) = None"
| "thrown_status (Inr r) = None"

section \<open>Example data\<close>

text \<open>Concrete configurations, requests and tokens on which the theorems are exercised.\<close>

definition cfg0 :: JWT_CONFIG where
  "cfg0 = \<lparr> accessSecret = ''access-secret'', refreshSecret = ''refresh-secret'',
            accessExpiresIn = 900, refreshExpiresIn = 604800 \<rparr>"

definition payload0 :: JwtPayload where
  "payload0 = \<lparr> userId = ''user-123'', gymId = ''gym-abc'', role = MEMBER \<rparr>"

definition decoded0 :: DecodedToken where
  "decoded0 = \<lparr> c_userId = ''user-123'', c_gymId = Some ''gym-abc'', c_role = Some MEMBER,
                c_iat = 1000, c_exp = 1900, c_iss = ''gym-saas-api'',
                c_aud = ''gym-saas-client'' \<rparr>"

text \<open>A verifier that accepts one token text and rejects every other.\<close>

definition verify0 :: "string \<Rightarrow> js_error + DecodedToken" where
  "verify0 t = (if t = ''tok-member'' then Inr decoded0 else Inl (Error ''Invalid access token''))"

definition req0 :: Request where
  "req0 = \<lparr> params_gymId = JUndefined, query_gymId = JUndefined, req_body = Some JUndefined,
            cookies_accessToken = None, headers_authorization = None,
            req_userId = None, req_gymId = None, req_userRole = None \<rparr>"

text \<open>An authenticated member of \<open>gym-abc\<close> asking for \<open>?gymId=gym-abc\<close> with another ID in the body.\<close>

definition req1 :: Request where
  "req1 = \<lparr> params_gymId = JUndefined, query_gymId = JStr ''gym-abc'',
            req_body = Some (JStr ''gym-xyz''),
            cookies_accessToken = None, headers_authorization = None,
            req_userId = Some ''user-123'', req_gymId = Some ''gym-abc'',
            req_userRole = Some MEMBER \<rparr>"


text \<open>
  A stand-in for the hashing library on which the services are run: the digest is the salt,
  a separator and the plaintext.
\<close>

definition stub_bcrypt :: bcryptjs where
  "stub_bcrypt =
     \<lparr> bcrypt_hash = (\<lambda>password rounds salt. salt @ ''$'' @ password),
       bcrypt_compare = (\<lambda>password hash.
          drop (length hash - Suc (length password)) hash = ''$'' @ password) \<rparr>"

definition world0 :: world where
  "world0 = \<lparr> w_bcrypt = stub_bcrypt, w_salt = ''s1'', w_jwt_config = cfg0, w_clock = 1000,
              w_generated = \<lparr> g_id = ''user-456'', g_avatarUrl = None, g_isActive = True,
                               g_now = 1000 \<rparr> \<rparr>"

definition maria :: User where
  "maria = \<lparr> u_id = ''user-123'', u_gymId = ''gym-abc'', u_name = ''Maria Silva'',
             u_email = ''maria@example.com'', u_passwordHash = ''s2$Senha123'',
             u_role = MEMBER, u_cpf = Some ''12345678901'', u_phone = None, u_birthDate = None,
             u_avatarUrl = None, u_isActive = True, u_createdAt = 900, u_updatedAt = 900 \<rparr>"

definition db0 :: "User list" where
  "db0 = [maria]"


definition ana :: User where
  "ana = \<lparr> u_id = ''user-789'', u_gymId = ''gym-abc'', u_name = ''Ana Lima'',
           u_email = ''ana@example.com'', u_passwordHash = ''s1$Admin123'',
           u_role = ADMIN, u_cpf = None, u_phone = None, u_birthDate = None,
           u_avatarUrl = None, u_isActive = True, u_createdAt = 800, u_updatedAt = 800 \<rparr>"

definition db1 :: "User list" where
  "db1 = [maria, ana]"

text \<open>A stand-in for the paginated query: every row of the gym, and their number.\<close>

definition all_of_gym :: "unit \<Rightarrow> string \<Rightarrow> User list \<Rightarrow> User list \<times> nat" where
  "all_of_gym filters g db =
     (filter (\<lambda>u. u_gymId u = g) db, length (filter (\<lambda>u. u_gymId u = g) db))"

definition reg0 :: RegisterDTO where
  "reg0 = \<lparr> r_name = ''Maria Souza'', r_email = ''maria@example.com'', r_password = ''Senha123'',
            r_gymId = ''gym-xyz'', r_role = None, r_cpf = Some [], r_phone = None,
            r_birthDate = None \<rparr>"

definition refresh0 :: jwt where
  "refresh0 = generateRefreshToken cfg0 400 ''user-123''"

definition login0 :: LoginDTO where
  "login0 = \<lparr> l_email = ''maria@example.com'', l_password = ''Senha123'', l_gymId = ''gym-abc'' \<rparr>"

definition profile0 :: UpdateProfileDTO where
  "profile0 = \<lparr> up_name = Some ''Maria S. Silva'', up_phone = Some ''11987654321'',
                up_birthDate = None, up_avatarUrl = None \<rparr>"

definition edit0 :: UpdateUserDTO where
  "edit0 = \<lparr> uu_name = Some ''Nome Alterado por Admin'', uu_phone = None, uu_birthDate = None,
             uu_avatarUrl = None, uu_email = None, uu_role = Some INSTRUCTOR,
             uu_isActive = None, uu_cpf = None \<rparr>"

text \<open>
  A request on which no body was parsed, from an authenticated member of \<open>gym-abc\<close>, naming
  no gym in the path or the query.
\<close>

definition req_bodyless :: Request where
  "req_bodyless = \<lparr> params_gymId = JUndefined, query_gymId = JUndefined, req_body = None,
                    cookies_accessToken = None, headers_authorization = None,
                    req_userId = Some ''user-123'', req_gymId = Some ''gym-abc'',
                    req_userRole = Some MEMBER \<rparr>"

section \<open>Theorems\<close>

subsection \<open>Tenant-scope guard\<close>

text \<open>
  Where the guard can read what it asks for, that is, where the path or the query names a gym
  or \<open>req.body\<close> is an object, its verdict is the contract's: status 401 without an identity
  tenant, pass when no tenant ID is supplied or the supplied one equals the identity's, status
  403 when it differs; and a passing guard hands the request on unchanged.
\<close>

lemma validateGymAccess_contract_with_body:
  assumes "truthy (params_gymId req) \<or> truthy (query_gymId req) \<or> req_body req \<noteq> None"
  shows "verdict_of (validateGymAccess req) = tenant_guard_contract req
         \<and> (verdict_of (validateGymAccess req) = Pass \<longrightarrow> validateGymAccess req = Inr req)"
proof -
  let ?pq = "js_or (params_gymId req) (query_gymId req)"
  have read: "(if truthy ?pq then Inr ?pq else read_body_gymId req) =
              Inr (if truthy ?pq then ?pq else body_field req)"
    using assms
    by (cases "req_body req") (auto simp: read_body_gymId_def body_field_def js_or_def)
  have sup: "supplied_tenant req =
             (if truthy (if truthy ?pq then ?pq else body_field req)
              then Some (if truthy ?pq then ?pq else body_field req) else None)"
    by (auto simp: supplied_tenant_def js_or_def)
  show ?thesis
  proof (cases "req_gymId req")
    case None
    then show ?thesis
      by (simp add: validateGymAccess_def read tenant_guard_contract_def identity_tenant_def)
  next
    case (Some u)
    then show ?thesis
      by (cases "u = []")
         (simp_all add: validateGymAccess_def read sup tenant_guard_contract_def
            identity_tenant_def Let_def)
  qed
qed

lemma validateGymAccess_example:
  "verdict_of (validateGymAccess req1) = Pass \<and> validateGymAccess req1 = Inr req1"
  using validateGymAccess_contract_with_body [of req1]
  by (simp add: req1_def tenant_guard_contract_def identity_tenant_def supplied_tenant_def
        body_field_def)

text \<open>
  C1. Tenant-scope guard. The contract asks, for every request, for status 401 when the
  identity carries no tenant ID, and otherwise for a pass when the request supplies no tenant
  ID. On a request without a parsed body that names no gym in the path or the query, the guard
  reads \<open>req.body.gymId\<close> from \<open>undefined\<close>: the \<open>TypeError\<close> is handed to \<open>next\<close> and answered
  with status 500, both where the contract says pass and where it says 401.
\<close>

theorem validateGymAccess_bodyless:
  "validateGymAccess req_bodyless =
     Inl (TypeError (''Cannot read properties of undefined (reading '' @ [CHR 0x27]
                     @ ''gymId'' @ [CHR 0x27] @ '')''))
   \<and> verdict_of (validateGymAccess req_bodyless) = Fail 500
   \<and> tenant_guard_contract req_bodyless = Pass
   \<and> verdict_of (validateGymAccess (req_bodyless\<lparr>req_gymId := None\<rparr>)) = Fail 500
   \<and> tenant_guard_contract (req_bodyless\<lparr>req_gymId := None\<rparr>) = Fail 401"
  by (simp add: validateGymAccess_def read_body_gymId_def req_bodyless_def js_or_def
        tenant_guard_contract_def identity_tenant_def supplied_tenant_def body_field_def)

subsection \<open>Authenticate middleware\<close>




lemma presented_token_nonempty: "presented_token req = Some t \<Longrightarrow> t \<noteq> []"
  by (auto simp: presented_token_def header_token_def Let_def split: option.splits if_splits)

lemma authenticate_token:
  "authenticate verify req =
     (case presented_token req of
        None \<Rightarrow> Inl (AppError (''Token de autentica'' @ [CHR 0xE7] @ [CHR 0xE3] @ ''o n''
                            @ [CHR 0xE3] @ ''o fornecido'') 401)
      | Some t \<Rightarrow>
          (case verify t of
             Inl error \<Rightarrow> Inl (AppError (''Token inv'' @ [CHR 0xE1] @ ''lido ou expirado'') 401)
           | Inr d \<Rightarrow> Inr (attach_identity d req)))"
  by (cases "cookies_accessToken req"; cases "headers_authorization req")
     (simp_all add: authenticate_def presented_token_def header_token_def str_or_def
        attach_identity_def Let_def split: sum.splits)

text \<open>
  C6. Authenticate. The token is taken from the \<open>accessToken\<close> cookie and, when the cookie holds
  none, from the Authorization header; the cookie wins when both hold one. When neither holds
  a token the middleware fails with status 401. When verification fails, whatever the
  verifier threw, the middleware fails with one and the same 401 error. When verification
  succeeds, the request goes on with exactly \<open>userId\<close>, \<open>gymId\<close> and \<open>role\<close> of the verified
  claims attached and nothing else changed.
\<close>

theorem authenticate_contract:
  "(str_truthy (cookies_accessToken req) \<longrightarrow> presented_token req = cookies_accessToken req)
   \<and> (\<not> str_truthy (cookies_accessToken req) \<longrightarrow> presented_token req = header_token req)
   \<and> (presented_token req = None \<longrightarrow>
        (\<exists>m. authenticate verify req = Inl (AppError m 401)))
   \<and> (\<forall>t e. presented_token req = Some t \<and> verify t = Inl e \<longrightarrow>
        authenticate verify req = Inl (AppError (''Token inv'' @ [CHR 0xE1] @ ''lido ou expirado'') 401))
   \<and> (\<forall>t d. presented_token req = Some t \<and> verify t = Inr d \<longrightarrow>
        authenticate verify req =
          Inr (req\<lparr> req_userId := Some (c_userId d), req_gymId := c_gymId d,
                    req_userRole := c_role d \<rparr>))"
proof (intro conjI allI impI)
  assume "str_truthy (cookies_accessToken req)"
  then show "presented_token req = cookies_accessToken req"
    by (cases "cookies_accessToken req") (simp_all add: presented_token_def)
next
  assume "\<not> str_truthy (cookies_accessToken req)"
  then show "presented_token req = header_token req"
    by (cases "cookies_accessToken req") (simp_all add: presented_token_def)
next
  assume "presented_token req = None"
  then show "\<exists>m. authenticate verify req = Inl (AppError m 401)"
    by (simp add: authenticate_token)
next
  fix t e assume "presented_token req = Some t \<and> verify t = Inl e"
  then show "authenticate verify req = Inl (AppError (''Token inv'' @ [CHR 0xE1] @ ''lido ou expirado'') 401)"
    by (simp add: authenticate_token)
next
  fix t d assume "presented_token req = Some t \<and> verify t = Inr d"
  then show "authenticate verify req =
          Inr (req\<lparr> req_userId := Some (c_userId d), req_gymId := c_gymId d,
                    req_userRole := c_role d \<rparr>)"
    by (simp add: authenticate_token attach_identity_def)
qed

theorem authenticate_contract_witness:
  "authenticate verify0 (req0\<lparr>cookies_accessToken := Some ''tok-member'',
                               headers_authorization := Some ''Bearer tok-other''\<rparr>) =
     Inr (req0\<lparr>cookies_accessToken := Some ''tok-member'',
               headers_authorization := Some ''Bearer tok-other'',
               req_userId := Some ''user-123'', req_gymId := Some ''gym-abc'',
               req_userRole := Some MEMBER\<rparr>)
   \<and> authenticate verify0 (req0\<lparr>headers_authorization := Some ''Bearer tok-other''\<rparr>) =
       Inl (AppError (''Token inv'' @ [CHR 0xE1] @ ''lido ou expirado'') 401)
   \<and> (\<exists>m. authenticate verify0 req0 = Inl (AppError m 401))"
proof -
  let ?both = "req0\<lparr>cookies_accessToken := Some ''tok-member'',
                    headers_authorization := Some ''Bearer tok-other''\<rparr>"
  let ?hdr = "req0\<lparr>headers_authorization := Some ''Bearer tok-other''\<rparr>"
  have c: "presented_token ?both = Some ''tok-member''"
    using authenticate_contract [of ?both verify0] by (simp add: req0_def)
  have h: "presented_token ?hdr = Some ''tok-other''"
    using authenticate_contract [of ?hdr verify0] by (simp add: req0_def header_token_def)
  have n: "presented_token req0 = None"
    using authenticate_contract [of req0 verify0] by (simp add: req0_def header_token_def)
  have "verify0 ''tok-member'' = Inr decoded0" "verify0 ''tok-other'' = Inl (Error ''Invalid access token'')"
    by (simp_all add: verify0_def)
  with c h n show ?thesis
    using authenticate_contract [of ?both verify0] authenticate_contract [of ?hdr verify0]
          authenticate_contract [of req0 verify0]
    by (simp add: decoded0_def)
qed




subsection \<open>Token codec\<close>



lemma verifyAccessToken_issued:
  "verifyAccessToken cfg now (generateAccessToken cfg t0 p) =
     (if t0 + accessExpiresIn cfg \<le> now then Inl (Error ''Access token expired'')
      else Inr \<lparr> c_userId = userId p, c_gymId = Some (gymId p), c_role = Some (role p),
                 c_iat = t0, c_exp = t0 + accessExpiresIn cfg,
                 c_iss = ''gym-saas-api'', c_aud = ''gym-saas-client'' \<rparr>)"
  by (simp add: verifyAccessToken_def generateAccessToken_def jwt_sign_def jwt_verify_def Let_def)

lemma verifyAccessToken_tampered:
  "tampered (generateAccessToken cfg t0 p) tok' \<Longrightarrow>
   verifyAccessToken cfg now tok' = Inl (Error ''Invalid access token'')"
  by (cases tok')
     (auto simp: verifyAccessToken_def generateAccessToken_def jwt_sign_def jwt_verify_def Let_def)

lemma verifyAccessToken_foreign:
  "issuer opts \<noteq> ''gym-saas-api'' \<or> audience opts \<noteq> ''gym-saas-client'' \<Longrightarrow>
   now < t0 + expiresIn opts \<Longrightarrow>
   verifyAccessToken cfg now (jwt_sign payload (accessSecret cfg) opts t0) =
     Inl (Error ''Invalid access token'')"
  by (auto simp: verifyAccessToken_def jwt_sign_def jwt_verify_def Let_def)

lemma verifyAccessToken_malformed:
  "verifyAccessToken cfg now (Malformed s) = Inl (Error ''Invalid access token'')"
  by (simp add: verifyAccessToken_def jwt_verify_def)

text \<open>
  C5. Access-token round trip. For all claim values, an access token issued at \<open>t0\<close> and
  verified under the same configuration before its expiry yields the original \<open>userId\<close>,
  \<open>gymId\<close> and \<open>role\<close>; verified at or after its expiry it fails with
  \<open>Access token expired\<close>; and a token that was tampered with, a token signed for another
  issuer or audience (checked before its own expiry), and a malformed token all fail with
  \<open>Invalid access token\<close>.
\<close>

theorem access_token_roundtrip:
  "(now < t0 + accessExpiresIn cfg \<longrightarrow>
      (\<exists>d. verifyAccessToken cfg now (generateAccessToken cfg t0 p) = Inr d
           \<and> c_userId d = userId p \<and> c_gymId d = Some (gymId p) \<and> c_role d = Some (role p)))
   \<and> (t0 + accessExpiresIn cfg \<le> now \<longrightarrow>
        verifyAccessToken cfg now (generateAccessToken cfg t0 p) =
          Inl (Error ''Access token expired''))
   \<and> (\<forall>tok'. tampered (generateAccessToken cfg t0 p) tok' \<longrightarrow>
        verifyAccessToken cfg now tok' = Inl (Error ''Invalid access token''))
   \<and> (\<forall>payload opts.
        (issuer opts \<noteq> ''gym-saas-api'' \<or> audience opts \<noteq> ''gym-saas-client'')
        \<and> now < t0 + expiresIn opts \<longrightarrow>
        verifyAccessToken cfg now (jwt_sign payload (accessSecret cfg) opts t0) =
          Inl (Error ''Invalid access token''))
   \<and> (\<forall>s. verifyAccessToken cfg now (Malformed s) = Inl (Error ''Invalid access token''))"
proof (intro conjI allI impI)
  assume "now < t0 + accessExpiresIn cfg"
  then show "\<exists>d. verifyAccessToken cfg now (generateAccessToken cfg t0 p) = Inr d
           \<and> c_userId d = userId p \<and> c_gymId d = Some (gymId p) \<and> c_role d = Some (role p)"
    by (simp add: verifyAccessToken_issued)
next
  assume "t0 + accessExpiresIn cfg \<le> now"
  then show "verifyAccessToken cfg now (generateAccessToken cfg t0 p) =
          Inl (Error ''Access token expired'')"
    by (simp add: verifyAccessToken_issued)
next
  fix tok' assume "tampered (generateAccessToken cfg t0 p) tok'"
  then show "verifyAccessToken cfg now tok' = Inl (Error ''Invalid access token'')"
    by (rule verifyAccessToken_tampered)
next
  fix payload and opts :: sign_options
  assume "(issuer opts \<noteq> ''gym-saas-api'' \<or> audience opts \<noteq> ''gym-saas-client'')
        \<and> now < t0 + expiresIn opts"
  then show "verifyAccessToken cfg now (jwt_sign payload (accessSecret cfg) opts t0) =
          Inl (Error ''Invalid access token'')"
    using verifyAccessToken_foreign by blast
next
  fix s show "verifyAccessToken cfg now (Malformed s) = Inl (Error ''Invalid access token'')"
    by (rule verifyAccessToken_malformed)
qed

theorem access_token_roundtrip_witness:
  "(\<exists>d. verifyAccessToken cfg0 1500 (generateAccessToken cfg0 1000 payload0) = Inr d
        \<and> c_userId d = ''user-123'' \<and> c_gymId d = Some ''gym-abc'' \<and> c_role d = Some MEMBER)
   \<and> verifyAccessToken cfg0 1900 (generateAccessToken cfg0 1000 payload0) =
       Inl (Error ''Access token expired'')
   \<and> verifyAccessToken cfg0 1500
        (Jwt (decoded0\<lparr>c_role := Some ADMIN\<rparr>) (HMAC ''access-secret'' decoded0)) =
       Inl (Error ''Invalid access token'')
   \<and> verifyAccessToken cfg0 1500
        (jwt_sign \<lparr>p_userId = ''user-123'', p_gymId = Some ''gym-abc'', p_role = Some MEMBER\<rparr>
           ''access-secret'' \<lparr>expiresIn = 900, issuer = ''someone-else'', audience = ''gym-saas-client''\<rparr> 1000) =
       Inl (Error ''Invalid access token'')"
proof -
  note live = access_token_roundtrip [of 1500 1000 cfg0 payload0]
  note late = access_token_roundtrip [of 1900 1000 cfg0 payload0]
  have a: "(1500::nat) < 1000 + accessExpiresIn cfg0" and b: "1000 + accessExpiresIn cfg0 \<le> (1900::nat)"
    by (simp_all add: cfg0_def)
  have t: "tampered (generateAccessToken cfg0 1000 payload0)
             (Jwt (decoded0\<lparr>c_role := Some ADMIN\<rparr>) (HMAC ''access-secret'' decoded0))"
    by (simp add: generateAccessToken_def jwt_sign_def cfg0_def payload0_def decoded0_def Let_def)
  have s: "accessSecret cfg0 = ''access-secret''"
    by (simp add: cfg0_def)
  from live a have 1: "\<exists>d. verifyAccessToken cfg0 1500 (generateAccessToken cfg0 1000 payload0) = Inr d
        \<and> c_userId d = userId payload0 \<and> c_gymId d = Some (gymId payload0) \<and> c_role d = Some (role payload0)"
    by blast
  from late b have 2: "verifyAccessToken cfg0 1900 (generateAccessToken cfg0 1000 payload0) =
       Inl (Error ''Access token expired'')"
    by blast
  from live t have 3: "verifyAccessToken cfg0 1500
        (Jwt (decoded0\<lparr>c_role := Some ADMIN\<rparr>) (HMAC ''access-secret'' decoded0)) =
       Inl (Error ''Invalid access token'')"
    by blast
  from live have "\<forall>payload opts.
        (issuer opts \<noteq> ''gym-saas-api'' \<or> audience opts \<noteq> ''gym-saas-client'')
        \<and> 1500 < 1000 + expiresIn opts \<longrightarrow>
        verifyAccessToken cfg0 1500 (jwt_sign payload (accessSecret cfg0) opts 1000) =
          Inl (Error ''Invalid access token'')"
    by blast
  then have 4: "verifyAccessToken cfg0 1500
        (jwt_sign \<lparr>p_userId = ''user-123'', p_gymId = Some ''gym-abc'', p_role = Some MEMBER\<rparr>
           ''access-secret'' \<lparr>expiresIn = 900, issuer = ''someone-else'', audience = ''gym-saas-client''\<rparr> 1000) =
       Inl (Error ''Invalid access token'')"
    unfolding s by (elim allE [where x = "\<lparr>p_userId = ''user-123'', p_gymId = Some ''gym-abc'', p_role = Some MEMBER\<rparr>"]
       allE [where x = "\<lparr>expiresIn = 900, issuer = ''someone-else'', audience = ''gym-saas-client''\<rparr>"]) simp
  from 1 2 3 4 show ?thesis by (simp add: payload0_def)
qed

subsection \<open>Auth service: login\<close>

lemma login_cases:
  "login w data db =
     (case findByEmailAndGymId (l_email data) (l_gymId data) db of
        None \<Rightarrow> Inl (AppError (''Credenciais inv'' @ [CHR 0xE1] @ ''lidas'') 401)
      | Some u \<Rightarrow>
          if \<not> u_isActive u then Inl (AppError (''Usu'' @ [CHR 0xE1] @ ''rio inativo'') 403)
          else if \<not> bcrypt_compare (w_bcrypt w) (l_password data) (u_passwordHash u)
          then Inl (AppError (''Credenciais inv'' @ [CHR 0xE1] @ ''lidas'') 401)
          else Inr \<lparr> resp_user = [(''id'', JStr (u_id u)), (''name'', JStr (u_name u)),
                              (''email'', JStr (u_email u)),
                              (''role'', JStr (role_name (u_role u))),
                              (''gymId'', JStr (u_gymId u))],
                     resp_accessToken = generateAccessToken (w_jwt_config w) (w_clock w)
                        \<lparr> userId = u_id u, gymId = u_gymId u, role = u_role u \<rparr>,
                     resp_refreshToken = generateRefreshToken (w_jwt_config w) (w_clock w) (u_id u) \<rparr>)"
  by (simp add: login_def comparePassword_def Let_def split: option.splits)

text \<open>
  C2. Login failures. When no record exists for the (email, gym) pair, login fails with status
  401. When the record exists and is active but the password does not verify against the
  stored hash, login fails with status 401 and the very same message as for the unknown
  email. When the record exists and is inactive, login fails with status 403 whatever the
  password check would say: the inactive check comes first.
\<close>

theorem login_failures:
  "(findByEmailAndGymId (l_email data) (l_gymId data) db = None \<longrightarrow>
      login w data db = Inl (AppError (''Credenciais inv'' @ [CHR 0xE1] @ ''lidas'') 401))
   \<and> (\<forall>u. findByEmailAndGymId (l_email data) (l_gymId data) db = Some u \<and> u_isActive u
           \<and> \<not> comparePassword (w_bcrypt w) (l_password data) (u_passwordHash u) \<longrightarrow>
      login w data db = Inl (AppError (''Credenciais inv'' @ [CHR 0xE1] @ ''lidas'') 401))
   \<and> (\<forall>u. findByEmailAndGymId (l_email data) (l_gymId data) db = Some u \<and> \<not> u_isActive u \<longrightarrow>
      login w data db = Inl (AppError (''Usu'' @ [CHR 0xE1] @ ''rio inativo'') 403))"
  by (simp add: login_cases comparePassword_def)

theorem login_failures_witness:
  "login world0 \<lparr>l_email = ''nobody@example.com'', l_password = ''Senha123'', l_gymId = ''gym-abc''\<rparr> db0 =
     Inl (AppError (''Credenciais inv'' @ [CHR 0xE1] @ ''lidas'') 401)
   \<and> login world0 \<lparr>l_email = ''maria@example.com'', l_password = ''SenhaErrada123'', l_gymId = ''gym-abc''\<rparr> db0 =
     Inl (AppError (''Credenciais inv'' @ [CHR 0xE1] @ ''lidas'') 401)
   \<and> comparePassword stub_bcrypt ''Senha123'' (u_passwordHash maria)
   \<and> login world0 \<lparr>l_email = ''maria@example.com'', l_password = ''Senha123'', l_gymId = ''gym-abc''\<rparr>
        [maria\<lparr>u_isActive := False\<rparr>] =
     Inl (AppError (''Usu'' @ [CHR 0xE1] @ ''rio inativo'') 403)"
proof -
  let ?unknown = "\<lparr>l_email = ''nobody@example.com'', l_password = ''Senha123'', l_gymId = ''gym-abc''\<rparr>"
  let ?wrong = "\<lparr>l_email = ''maria@example.com'', l_password = ''SenhaErrada123'', l_gymId = ''gym-abc''\<rparr>"
  let ?right = "\<lparr>l_email = ''maria@example.com'', l_password = ''Senha123'', l_gymId = ''gym-abc''\<rparr>"
  have a: "findByEmailAndGymId (l_email ?unknown) (l_gymId ?unknown) db0 = None"
    by (simp add: findByEmailAndGymId_def db0_def maria_def)
  have b: "findByEmailAndGymId (l_email ?wrong) (l_gymId ?wrong) db0 = Some maria \<and> u_isActive maria
           \<and> \<not> comparePassword (w_bcrypt world0) (l_password ?wrong) (u_passwordHash maria)"
    by (simp add: findByEmailAndGymId_def db0_def maria_def comparePassword_def world0_def
          stub_bcrypt_def)
  have c: "findByEmailAndGymId (l_email ?right) (l_gymId ?right) [maria\<lparr>u_isActive := False\<rparr>]
             = Some (maria\<lparr>u_isActive := False\<rparr>) \<and> \<not> u_isActive (maria\<lparr>u_isActive := False\<rparr>)"
    by (simp add: findByEmailAndGymId_def maria_def)
  have d: "comparePassword stub_bcrypt ''Senha123'' (u_passwordHash maria)"
    by (simp add: comparePassword_def stub_bcrypt_def maria_def)
  from a login_failures [of ?unknown db0 world0]
  have 1: "login world0 ?unknown db0 = Inl (AppError (''Credenciais inv'' @ [CHR 0xE1] @ ''lidas'') 401)"
    by blast
  from b login_failures [of ?wrong db0 world0]
  have 2: "login world0 ?wrong db0 = Inl (AppError (''Credenciais inv'' @ [CHR 0xE1] @ ''lidas'') 401)"
    by blast
  from c login_failures [of ?right "[maria\<lparr>u_isActive := False\<rparr>]" world0]
  have 3: "login world0 ?right [maria\<lparr>u_isActive := False\<rparr>] =
            Inl (AppError (''Usu'' @ [CHR 0xE1] @ ''rio inativo'') 403)"
    by blast
  from 1 2 3 d show ?thesis by blast
qed

subsection \<open>Auth service: register\<close>










subsection \<open>Auth service: refresh\<close>

lemma refresh_cases:
  "refreshAccessToken w tok db =
     (case verifyRefreshToken (w_jwt_config w) (w_clock w) tok of
        Inl e \<Rightarrow> Inl (AppError (''Refresh token inv'' @ [CHR 0xE1] @ ''lido ou expirado'') 401)
      | Inr d \<Rightarrow>
          (case findById (c_userId d) db of
             None \<Rightarrow> Inl (AppError (''Usu'' @ [CHR 0xE1] @ ''rio n'' @ [CHR 0xE3] @ ''o encontrado'') 404)
           | Some u \<Rightarrow>
               if \<not> u_isActive u then Inl (AppError (''Usu'' @ [CHR 0xE1] @ ''rio inativo'') 403)
               else Inr (RefreshResponse (generateAccessToken (w_jwt_config w) (w_clock w)
                      \<lparr> userId = u_id u, gymId = u_gymId u, role = u_role u \<rparr>))))"
  by (simp add: refreshAccessToken_def split: sum.splits option.splits)

lemma generateAccessToken_claims:
  "jwt_claims (generateAccessToken cfg now p) =
     \<lparr> c_userId = userId p, c_gymId = Some (gymId p), c_role = Some (role p),
       c_iat = now, c_exp = now + accessExpiresIn cfg,
       c_iss = ''gym-saas-api'', c_aud = ''gym-saas-client'' \<rparr>"
  by (simp add: generateAccessToken_def jwt_sign_def Let_def)

text \<open>
  C4. Refresh. Any failure of the refresh-token verification surfaces as status 401. When the
  token verifies but no record has the subject's id, the call fails with status 404; when the
  record is inactive, with status 403. Otherwise the call returns one new access token and
  nothing else, and that token's subject, gym and role are those of the record as stored now.
\<close>

theorem refreshAccessToken_contract:
  "(\<forall>e. verifyRefreshToken (w_jwt_config w) (w_clock w) tok = Inl e \<longrightarrow>
      (\<exists>m. refreshAccessToken w tok db = Inl (AppError m 401)))
   \<and> (\<forall>d. verifyRefreshToken (w_jwt_config w) (w_clock w) tok = Inr d
          \<and> findById (c_userId d) db = None \<longrightarrow>
      (\<exists>m. refreshAccessToken w tok db = Inl (AppError m 404)))
   \<and> (\<forall>d u. verifyRefreshToken (w_jwt_config w) (w_clock w) tok = Inr d
          \<and> findById (c_userId d) db = Some u \<and> \<not> u_isActive u \<longrightarrow>
      (\<exists>m. refreshAccessToken w tok db = Inl (AppError m 403)))
   \<and> (\<forall>d u. verifyRefreshToken (w_jwt_config w) (w_clock w) tok = Inr d
          \<and> findById (c_userId d) db = Some u \<and> u_isActive u \<longrightarrow>
      (\<exists>t. refreshAccessToken w tok db = Inr (RefreshResponse t)
         \<and> t = generateAccessToken (w_jwt_config w) (w_clock w)
                 \<lparr> userId = u_id u, gymId = u_gymId u, role = u_role u \<rparr>
         \<and> c_userId (jwt_claims t) = u_id u
         \<and> c_gymId (jwt_claims t) = Some (u_gymId u)
         \<and> c_role (jwt_claims t) = Some (u_role u)))"
  by (simp add: refresh_cases generateAccessToken_claims)

lemma verify_refresh0:
  "verifyRefreshToken (w_jwt_config world0) (w_clock world0) refresh0 =
     Inr \<lparr> c_userId = ''user-123'', c_gymId = None, c_role = None, c_iat = 400,
           c_exp = 605200, c_iss = ''gym-saas-api'', c_aud = ''gym-saas-client'' \<rparr>"
  by (simp add: verifyRefreshToken_def refresh0_def generateRefreshToken_def jwt_sign_def
        jwt_verify_def world0_def cfg0_def Let_def)

theorem refreshAccessToken_contract_witness:
  "(\<exists>m. refreshAccessToken world0 (Malformed ''token.invalido.aqui'') db0 = Inl (AppError m 401))
   \<and> (\<exists>m. refreshAccessToken world0 refresh0 [] = Inl (AppError m 404))
   \<and> (\<exists>m. refreshAccessToken world0 refresh0 [maria\<lparr>u_isActive := False\<rparr>] = Inl (AppError m 403))
   \<and> (\<exists>t. refreshAccessToken world0 refresh0 [maria\<lparr>u_role := INSTRUCTOR\<rparr>] = Inr (RefreshResponse t)
        \<and> c_userId (jwt_claims t) = ''user-123''
        \<and> c_gymId (jwt_claims t) = Some ''gym-abc''
        \<and> c_role (jwt_claims t) = Some INSTRUCTOR)"
proof -
  let ?d = "\<lparr> c_userId = ''user-123'', c_gymId = None, c_role = None, c_iat = 400,
           c_exp = 605200, c_iss = ''gym-saas-api'', c_aud = ''gym-saas-client'' \<rparr>"
  have bad: "verifyRefreshToken (w_jwt_config world0) (w_clock world0) (Malformed ''token.invalido.aqui'')
               = Inl (Error ''Invalid refresh token'')"
    by (simp add: verifyRefreshToken_def jwt_verify_def)
  have gone: "findById (c_userId ?d) [] = None"
    by (simp add: findById_def)
  have off: "findById (c_userId ?d) [maria\<lparr>u_isActive := False\<rparr>] = Some (maria\<lparr>u_isActive := False\<rparr>)
             \<and> \<not> u_isActive (maria\<lparr>u_isActive := False\<rparr>)"
    by (simp add: findById_def maria_def)
  have on: "findById (c_userId ?d) [maria\<lparr>u_role := INSTRUCTOR\<rparr>] = Some (maria\<lparr>u_role := INSTRUCTOR\<rparr>)
             \<and> u_isActive (maria\<lparr>u_role := INSTRUCTOR\<rparr>)"
    by (simp add: findById_def maria_def)
  from bad refreshAccessToken_contract [of world0 "Malformed ''token.invalido.aqui''" db0]
  have 1: "\<exists>m. refreshAccessToken world0 (Malformed ''token.invalido.aqui'') db0 = Inl (AppError m 401)"
    by blast
  from verify_refresh0 gone refreshAccessToken_contract [of world0 refresh0 "[]"]
  have 2: "\<exists>m. refreshAccessToken world0 refresh0 [] = Inl (AppError m 404)"
    by blast
  from verify_refresh0 off refreshAccessToken_contract [of world0 refresh0 "[maria\<lparr>u_isActive := False\<rparr>]"]
  have 3: "\<exists>m. refreshAccessToken world0 refresh0 [maria\<lparr>u_isActive := False\<rparr>] = Inl (AppError m 403)"
    by blast
  from verify_refresh0 on refreshAccessToken_contract [of world0 refresh0 "[maria\<lparr>u_role := INSTRUCTOR\<rparr>]"]
  have "\<exists>t. refreshAccessToken world0 refresh0 [maria\<lparr>u_role := INSTRUCTOR\<rparr>] = Inr (RefreshResponse t)
         \<and> c_userId (jwt_claims t) = u_id (maria\<lparr>u_role := INSTRUCTOR\<rparr>)
         \<and> c_gymId (jwt_claims t) = Some (u_gymId (maria\<lparr>u_role := INSTRUCTOR\<rparr>))
         \<and> c_role (jwt_claims t) = Some (u_role (maria\<lparr>u_role := INSTRUCTOR\<rparr>))"
    by blast
  then have 4: "\<exists>t. refreshAccessToken world0 refresh0 [maria\<lparr>u_role := INSTRUCTOR\<rparr>] = Inr (RefreshResponse t)
        \<and> c_userId (jwt_claims t) = ''user-123''
        \<and> c_gymId (jwt_claims t) = Some ''gym-abc''
        \<and> c_role (jwt_claims t) = Some INSTRUCTOR"
    by (simp add: maria_def)
  from 1 2 3 4 show ?thesis by blast
qed

subsection \<open>No password hash in a response\<close>

lemma rest_without_hides: "\<not> has_property k (rest_without k object)"
  by (auto simp: has_property_def rest_without_def)

lemma removeSensitiveData_hides: "\<not> has_property ''passwordHash'' (removeSensitiveData u)"
  by (simp add: removeSensitiveData_def rest_without_hides)

lemma user_object_has_hash: "has_property ''passwordHash'' (user_object u)"
  by (simp add: has_property_def user_object_def)

lemma register_hides:
  "register w data db = (Inr resp, db') \<Longrightarrow> \<not> has_property ''passwordHash'' (resp_user resp)"
  by (auto simp: register_def create_def Let_def has_property_def
        split: if_splits sum.splits prod.splits)

lemma login_hides:
  "login w data db = Inr resp \<Longrightarrow> \<not> has_property ''passwordHash'' (resp_user resp)"
  by (auto simp: login_cases has_property_def split: option.splits if_splits)

lemma getProfile_hides:
  "getProfile uid db = Inr profile \<Longrightarrow> \<not> has_property ''passwordHash'' profile"
  by (auto simp: getProfile_def rest_without_hides split: option.splits if_splits)

lemma listUsers_hides:
  "listUsers findMany filters rid rrole rgym db = Inr (rows, meta) \<Longrightarrow>
   row \<in> set rows \<Longrightarrow> \<not> has_property ''passwordHash'' row"
  by (auto simp: listUsers_def removeSensitiveData_hides split: if_splits prod.splits)

lemma getUserById_hides:
  "getUserById uid rid rrole rgym db = Inr safe \<Longrightarrow> \<not> has_property ''passwordHash'' safe"
  by (auto simp: getUserById_def Let_def removeSensitiveData_hides split: option.splits if_splits)

lemma updateOwnProfile_hides:
  "updateOwnProfile uid data db = (Inr safe, db') \<Longrightarrow> \<not> has_property ''passwordHash'' safe"
  by (auto simp: updateOwnProfile_def removeSensitiveData_hides split: option.splits if_splits)

lemma updateUser_hides:
  "updateUser uid data rid rrole rgym db = (Inr safe, db') \<Longrightarrow>
   \<not> has_property ''passwordHash'' safe"
  unfolding updateUser_def
  by (auto simp: removeSensitiveData_hides split: option.splits if_splits)

lemma deactivateUser_hides:
  "deactivateUser uid rid rrole rgym db = (Inr safe, db') \<Longrightarrow>
   \<not> has_property ''passwordHash'' safe"
  unfolding deactivateUser_def
  by (auto simp: removeSensitiveData_hides split: option.splits if_splits)

lemma reactivateUser_hides:
  "reactivateUser uid rid rrole rgym db = (Inr safe, db') \<Longrightarrow>
   \<not> has_property ''passwordHash'' safe"
  unfolding reactivateUser_def
  by (auto simp: removeSensitiveData_hides split: option.splits if_splits)

text \<open>
  C8. For each operation of the auth service and the user service that returns a user or a
  list of users (register, login, getProfile, listUsers, getUserById, updateOwnProfile,
  updateUser, deactivateUser, reactivateUser), the value returned on success has no
  \<open>passwordHash\<close> property.
\<close>

theorem responses_hide_passwordHash:
  "(\<forall>resp db'. register w rdata db = (Inr resp, db') \<longrightarrow>
       \<not> has_property ''passwordHash'' (resp_user resp))
   \<and> (\<forall>resp. login w ldata db = Inr resp \<longrightarrow> \<not> has_property ''passwordHash'' (resp_user resp))
   \<and> (\<forall>profile. getProfile uid db = Inr profile \<longrightarrow> \<not> has_property ''passwordHash'' profile)
   \<and> (\<forall>rows meta. listUsers findMany filters rid rrole rgym db = Inr (rows, meta) \<longrightarrow>
         (\<forall>row \<in> set rows. \<not> has_property ''passwordHash'' row))
   \<and> (\<forall>safe. getUserById uid rid rrole rgym db = Inr safe \<longrightarrow>
         \<not> has_property ''passwordHash'' safe)
   \<and> (\<forall>safe db'. updateOwnProfile uid pdata db = (Inr safe, db') \<longrightarrow>
         \<not> has_property ''passwordHash'' safe)
   \<and> (\<forall>safe db'. updateUser uid udata rid rrole rgym db = (Inr safe, db') \<longrightarrow>
         \<not> has_property ''passwordHash'' safe)
   \<and> (\<forall>safe db'. deactivateUser uid rid rrole rgym db = (Inr safe, db') \<longrightarrow>
         \<not> has_property ''passwordHash'' safe)
   \<and> (\<forall>safe db'. reactivateUser uid rid rrole rgym db = (Inr safe, db') \<longrightarrow>
         \<not> has_property ''passwordHash'' safe)"
proof (intro conjI allI impI ballI)
  fix resp db' assume "register w rdata db = (Inr resp, db')"
  then show "\<not> has_property ''passwordHash'' (resp_user resp)" by (rule register_hides)
next
  fix resp assume "login w ldata db = Inr resp"
  then show "\<not> has_property ''passwordHash'' (resp_user resp)" by (rule login_hides)
next
  fix profile assume "getProfile uid db = Inr profile"
  then show "\<not> has_property ''passwordHash'' profile" by (rule getProfile_hides)
next
  fix rows meta row
  assume "listUsers findMany filters rid rrole rgym db = Inr (rows, meta)" "row \<in> set rows"
  then show "\<not> has_property ''passwordHash'' row" by (rule listUsers_hides)
next
  fix safe assume "getUserById uid rid rrole rgym db = Inr safe"
  then show "\<not> has_property ''passwordHash'' safe" by (rule getUserById_hides)
next
  fix safe db' assume "updateOwnProfile uid pdata db = (Inr safe, db')"
  then show "\<not> has_property ''passwordHash'' safe" by (rule updateOwnProfile_hides)
next
  fix safe db' assume "updateUser uid udata rid rrole rgym db = (Inr safe, db')"
  then show "\<not> has_property ''passwordHash'' safe" by (rule updateUser_hides)
next
  fix safe db' assume "deactivateUser uid rid rrole rgym db = (Inr safe, db')"
  then show "\<not> has_property ''passwordHash'' safe" by (rule deactivateUser_hides)
next
  fix safe db' assume "reactivateUser uid rid rrole rgym db = (Inr safe, db')"
  then show "\<not> has_property ''passwordHash'' safe" by (rule reactivateUser_hides)
qed

lemma run_register: "\<exists>resp db'. register world0 reg0 db0 = (Inr resp, db')"
  by (simp add: register_def create_def breaks_unique_def Let_def existsByEmailAndGymId_def
        existsByCpf_def reg0_def db0_def maria_def)

lemma run_login: "\<exists>resp. login world0 login0 db0 = Inr resp"
  by (simp add: login_cases findByEmailAndGymId_def login0_def db0_def maria_def world0_def
        stub_bcrypt_def)

lemma run_getProfile: "\<exists>profile. getProfile ''user-123'' db0 = Inr profile"
  by (simp add: getProfile_def findById_def db0_def maria_def)

lemma run_listUsers:
  "listUsers all_of_gym () ''user-789'' ADMIN ''gym-abc'' db1 =
     Inr ([removeSensitiveData maria, removeSensitiveData ana], 2)"
  by (simp add: listUsers_def all_of_gym_def db1_def maria_def ana_def)

lemma run_getUserById:
  "getUserById ''user-123'' ''user-789'' ADMIN ''gym-abc'' db1 = Inr (removeSensitiveData maria)"
  by (simp add: getUserById_def findById_def db1_def maria_def ana_def Let_def)

lemma run_updateOwnProfile:
  "\<exists>safe db'. updateOwnProfile ''user-123'' profile0 db1 = (Inr safe, db')"
  by (simp add: updateOwnProfile_def findById_def update_def db1_def maria_def ana_def)

lemma run_updateUser:
  "\<exists>safe db'. updateUser ''user-123'' edit0 ''user-789'' ADMIN ''gym-abc'' db1 = (Inr safe, db')"
  by (simp add: updateUser_def findById_def update_def db1_def maria_def ana_def edit0_def)

lemma run_deactivateUser:
  "\<exists>safe db'. deactivateUser ''user-123'' ''user-789'' ADMIN ''gym-abc'' db1 = (Inr safe, db')"
  by (simp add: deactivateUser_def findById_def softDelete_def db1_def maria_def ana_def)

lemma run_reactivateUser:
  "\<exists>safe db'. reactivateUser ''user-123'' ''user-789'' ADMIN ''gym-abc''
      [maria\<lparr>u_isActive := False\<rparr>, ana] = (Inr safe, db')"
  by (simp add: reactivateUser_def findById_def reactivate_def maria_def ana_def)

theorem responses_hide_passwordHash_witness:
  "has_property ''passwordHash'' (user_object maria)
   \<and> (\<exists>resp db'. register world0 reg0 db0 = (Inr resp, db')
          \<and> \<not> has_property ''passwordHash'' (resp_user resp))
   \<and> (\<exists>resp. login world0 login0 db0 = Inr resp
          \<and> \<not> has_property ''passwordHash'' (resp_user resp))
   \<and> (\<exists>profile. getProfile ''user-123'' db0 = Inr profile
          \<and> \<not> has_property ''passwordHash'' profile)
   \<and> (\<exists>rows meta. listUsers all_of_gym () ''user-789'' ADMIN ''gym-abc'' db1 = Inr (rows, meta)
          \<and> length rows = 2 \<and> (\<forall>row \<in> set rows. \<not> has_property ''passwordHash'' row))
   \<and> (\<exists>safe. getUserById ''user-123'' ''user-789'' ADMIN ''gym-abc'' db1 = Inr safe
          \<and> \<not> has_property ''passwordHash'' safe)
   \<and> (\<exists>safe db'. updateOwnProfile ''user-123'' profile0 db1 = (Inr safe, db')
          \<and> \<not> has_property ''passwordHash'' safe)
   \<and> (\<exists>safe db'. updateUser ''user-123'' edit0 ''user-789'' ADMIN ''gym-abc'' db1 = (Inr safe, db')
          \<and> \<not> has_property ''passwordHash'' safe)
   \<and> (\<exists>safe db'. deactivateUser ''user-123'' ''user-789'' ADMIN ''gym-abc'' db1 = (Inr safe, db')
          \<and> \<not> has_property ''passwordHash'' safe)
   \<and> (\<exists>safe db'. reactivateUser ''user-123'' ''user-789'' ADMIN ''gym-abc''
          [maria\<lparr>u_isActive := False\<rparr>, ana] = (Inr safe, db')
          \<and> \<not> has_property ''passwordHash'' safe)"
proof -
  note A = responses_hide_passwordHash
    [where w = world0 and rdata = reg0 and db = db0 and ldata = login0 and uid = "''user-123''"]
  note B = responses_hide_passwordHash
    [where db = db1 and uid = "''user-123''" and rid = "''user-789''" and rrole = ADMIN
       and rgym = "''gym-abc''" and findMany = all_of_gym and filters = "()"
       and pdata = profile0 and udata = edit0]
  note C = responses_hide_passwordHash
    [where db = "[maria\<lparr>u_isActive := False\<rparr>, ana]" and uid = "''user-123''"
       and rid = "''user-789''" and rrole = ADMIN and rgym = "''gym-abc''"]
  have 0: "has_property ''passwordHash'' (user_object maria)"
    by (rule user_object_has_hash)
  from run_register obtain resp db' where "register world0 reg0 db0 = (Inr resp, db')"
    by blast
  with A [THEN conjunct1, rule_format, of resp db']
  have 1: "\<exists>resp db'. register world0 reg0 db0 = (Inr resp, db')
          \<and> \<not> has_property ''passwordHash'' (resp_user resp)"
    by blast
  from run_login obtain resp2 where "login world0 login0 db0 = Inr resp2"
    by blast
  with A [THEN conjunct2, THEN conjunct1, rule_format, of resp2]
  have 2: "\<exists>resp. login world0 login0 db0 = Inr resp
          \<and> \<not> has_property ''passwordHash'' (resp_user resp)"
    by blast
  from run_getProfile obtain profile where "getProfile ''user-123'' db0 = Inr profile"
    by blast
  with A [THEN conjunct2, THEN conjunct2, THEN conjunct1, rule_format, of profile]
  have 3: "\<exists>profile. getProfile ''user-123'' db0 = Inr profile
          \<and> \<not> has_property ''passwordHash'' profile"
    by blast
  from run_listUsers
    B [THEN conjunct2, THEN conjunct2, THEN conjunct2, THEN conjunct1, rule_format,
       of "[removeSensitiveData maria, removeSensitiveData ana]" 2]
  have 4: "\<exists>rows meta. listUsers all_of_gym () ''user-789'' ADMIN ''gym-abc'' db1 = Inr (rows, meta)
          \<and> length rows = 2 \<and> (\<forall>row \<in> set rows. \<not> has_property ''passwordHash'' row)"
    by simp
  from run_getUserById
    B [THEN conjunct2, THEN conjunct2, THEN conjunct2, THEN conjunct2, THEN conjunct1,
       rule_format, of "removeSensitiveData maria"]
  have 5: "\<exists>safe. getUserById ''user-123'' ''user-789'' ADMIN ''gym-abc'' db1 = Inr safe
          \<and> \<not> has_property ''passwordHash'' safe"
    by simp
  from run_updateOwnProfile obtain s6 d6
    where "updateOwnProfile ''user-123'' profile0 db1 = (Inr s6, d6)"
    by blast
  with B [THEN conjunct2, THEN conjunct2, THEN conjunct2, THEN conjunct2, THEN conjunct2,
          THEN conjunct1, rule_format, of s6 d6]
  have 6: "\<exists>safe db'. updateOwnProfile ''user-123'' profile0 db1 = (Inr safe, db')
          \<and> \<not> has_property ''passwordHash'' safe"
    by blast
  from run_updateUser obtain s7 d7
    where "updateUser ''user-123'' edit0 ''user-789'' ADMIN ''gym-abc'' db1 = (Inr s7, d7)"
    by blast
  with B [THEN conjunct2, THEN conjunct2, THEN conjunct2, THEN conjunct2, THEN conjunct2,
          THEN conjunct2, THEN conjunct1, rule_format, of s7 d7]
  have 7: "\<exists>safe db'. updateUser ''user-123'' edit0 ''user-789'' ADMIN ''gym-abc'' db1 = (Inr safe, db')
          \<and> \<not> has_property ''passwordHash'' safe"
    by blast
  from run_deactivateUser obtain s8 d8
    where "deactivateUser ''user-123'' ''user-789'' ADMIN ''gym-abc'' db1 = (Inr s8, d8)"
    by blast
  with B [THEN conjunct2, THEN conjunct2, THEN conjunct2, THEN conjunct2, THEN conjunct2,
          THEN conjunct2, THEN conjunct2, THEN conjunct1, rule_format, of s8 d8]
  have 8: "\<exists>safe db'. deactivateUser ''user-123'' ''user-789'' ADMIN ''gym-abc'' db1 = (Inr safe, db')
          \<and> \<not> has_property ''passwordHash'' safe"
    by blast
  from run_reactivateUser obtain s9 d9
    where "reactivateUser ''user-123'' ''user-789'' ADMIN ''gym-abc''
             [maria\<lparr>u_isActive := False\<rparr>, ana] = (Inr s9, d9)"
    by blast
  with C [THEN conjunct2, THEN conjunct2, THEN conjunct2, THEN conjunct2, THEN conjunct2,
          THEN conjunct2, THEN conjunct2, THEN conjunct2, rule_format, of s9 d9]
  have 9: "\<exists>safe db'. reactivateUser ''user-123'' ''user-789'' ADMIN ''gym-abc''
          [maria\<lparr>u_isActive := False\<rparr>, ana] = (Inr safe, db')
          \<and> \<not> has_property ''passwordHash'' safe"
    by blast
  from 0 1 2 3 4 5 6 7 8 9 show ?thesis
    by (intro conjI)
qed

subsection \<open>Self-targeting\<close>

lemma deactivateUser_self:
  "deactivateUser uid uid ADMIN g db =
     (Inl (App (AppError (''N'' @ [CHR 0xE3] @ ''o '' @ [CHR 0xE9] @ '' poss'' @ [CHR 0xED]
                          @ ''vel desativar o pr'' @ [CHR 0xF3] @ ''prio usu'' @ [CHR 0xE1]
                          @ ''rio'') 400)), db)"
  by (simp add: deactivateUser_def)

lemma deleteUser_self:
  "deleteUser uid uid ADMIN g db =
     (Inl (App (AppError (''N'' @ [CHR 0xE3] @ ''o '' @ [CHR 0xE9] @ '' poss'' @ [CHR 0xED]
                          @ ''vel deletar o pr'' @ [CHR 0xF3] @ ''prio usu'' @ [CHR 0xE1]
                          @ ''rio'') 400)), db)"
  by (simp add: deleteUser_def)

text \<open>
  C9, as the code has it. When an ADMIN asks to deactivate or to delete the account whose id
  is the requester's own, the operation fails with an \<open>AppError\<close> of status 400 and the table
  is left as it was.
\<close>

theorem self_target_rejected:
  "thrown_status (fst (deactivateUser uid uid ADMIN g db)) = Some 400
   \<and> snd (deactivateUser uid uid ADMIN g db) = db
   \<and> thrown_status (fst (deleteUser uid uid ADMIN g db)) = Some 400
   \<and> snd (deleteUser uid uid ADMIN g db) = db"
  by (simp add: deactivateUser_self deleteUser_self)

text \<open>
  C9, as stated, asks for status 403. On the table holding the administrator \<open>user-789\<close>, that
  administrator's request to deactivate or delete \<open>user-789\<close> does not fail with status 403.
\<close>

theorem self_target_not_forbidden:
  "thrown_status (fst (deactivateUser ''user-789'' ''user-789'' ADMIN ''gym-abc'' db1)) \<noteq> Some 403
   \<and> thrown_status (fst (deleteUser ''user-789'' ''user-789'' ADMIN ''gym-abc'' db1)) \<noteq> Some 403"
  by (simp add: deactivateUser_self deleteUser_self)

end
